theory Spec2Isabelle
  imports Complex_Main
begin

section \<open>House price prediction service: the inference pipeline of app.py\<close>

text \<open>
  The development embeds \<^verbatim>\<open>src/app.py\<close>: \<^verbatim>\<open>load_model\<close>, the start-up
  block that fills the globals \<^verbatim>\<open>model\<close> and \<^verbatim>\<open>scaler\<close>, the request handler
  \<^verbatim>\<open>predict\<close> and the table served by \<^verbatim>\<open>get_feature_ranges\<close>.

  Conventions.
  \<^item> A Python float is a value of \<open>pyfloat\<close>: \<open>Fin x\<close> with \<open>x\<close> a number of the
    binary64 format, or one of the three non-finite values. Every arithmetic operation
    computes the exact result and rounds it to binary64 with \<open>fl\<close> (to nearest, a tie to
    the even significand, an infinity on overflow, gradual underflow). The sign of zero
    is not modelled.
  \<^item> An exception is a value of \<open>py_exn\<close>; a function that may raise returns
    \<open>py_exn + 'a\<close> with \<open>Inl\<close> for the exception.
  \<^item> The built-in \<^verbatim>\<open>float()\<close> applied to a \<^verbatim>\<open>str\<close> is a parameter
    \<open>P :: string \<Rightarrow> pyfloat option\<close> (\<open>None\<close> when it raises ValueError): every
    theorem holds whatever strings the built-in accepts.
  \<^item> The unpickled objects are a scikit-learn \<^verbatim>\<open>StandardScaler\<close> and
    \<^verbatim>\<open>Ridge\<close>, as \<^verbatim>\<open>src/model/train_model.py\<close> writes them, with arbitrary
    contents.
\<close>

subsection \<open>Floats\<close>

datatype pyfloat = Fin real | PInf | NInf | NaN

fun is_finite :: "pyfloat \<Rightarrow> bool" where
  "is_finite (Fin x) = True"
| "is_finite PInf = False"
| "is_finite NInf = False"
| "is_finite NaN = False"

fun is_inf :: "pyfloat \<Rightarrow> bool" where
  "is_inf PInf = True"
| "is_inf NInf = True"
| "is_inf (Fin x) = False"
| "is_inf NaN = False"

text \<open>Rounding to the nearest integer, a tie to the even one.\<close>

definition round_half_even :: "real \<Rightarrow> int" where
  "round_half_even x =
     (let f = \<lfloor>x\<rfloor>; d = x - of_int f
      in if d < 1 / 2 then f else if 1 / 2 < d then f + 1
         else if even f then f else f + 1)"

definition pow2 :: "int \<Rightarrow> real" where
  "pow2 k = (if 0 \<le> k then 2 ^ nat k else 1 / 2 ^ nat (- k))"

text \<open>The exponent \<open>e\<close> with \<open>2 ^ e \<le> a < 2 ^ (e + 1)\<close>, for a positive \<open>a\<close>.\<close>

function binade :: "real \<Rightarrow> int" where
  "binade a =
     (if a \<le> 0 then 0
      else if 2 \<le> a then binade (a / 2) + 1
      else if a < 1 then binade (a * 2) - 1
      else 0)"
  by pat_completeness auto
termination
proof (relation "measure (\<lambda>a. if 1 \<le> a then nat \<lfloor>a\<rfloor> else nat \<lfloor>1 / a\<rfloor> + 1)")
  show "wf (measure (\<lambda>a::real. if 1 \<le> a then nat \<lfloor>a\<rfloor> else nat \<lfloor>1 / a\<rfloor> + 1))"
    by simp
next
  fix a :: real
  assume "\<not> a \<le> 0" "2 \<le> a"
  then have "\<lfloor>a / 2\<rfloor> \<le> \<lfloor>a - 1\<rfloor>"
    by (intro floor_mono) simp
  then have "\<lfloor>a / 2\<rfloor> < \<lfloor>a\<rfloor>"
    by simp
  moreover have "0 \<le> \<lfloor>a / 2\<rfloor>"
    using \<open>2 \<le> a\<close> by simp
  ultimately show "(a / 2, a) \<in> measure (\<lambda>a. if 1 \<le> a then nat \<lfloor>a\<rfloor> else nat \<lfloor>1 / a\<rfloor> + 1)"
    using \<open>2 \<le> a\<close> by simp
next
  fix a :: real
  assume a: "\<not> a \<le> 0" "\<not> 2 \<le> a" "a < 1"
  then have pos: "0 < a" by simp
  have one: "1 \<le> \<lfloor>1 / a\<rfloor>"
    using a pos by (simp add: le_floor_iff)
  show "(a * 2, a) \<in> measure (\<lambda>a. if 1 \<le> a then nat \<lfloor>a\<rfloor> else nat \<lfloor>1 / a\<rfloor> + 1)"
  proof (cases "1 \<le> a * 2")
    case True
    have "a * 2 < 2" using a by simp
    then have "\<lfloor>a * 2\<rfloor> < 2"
      by (simp add: floor_less_iff)
    with one have "nat \<lfloor>a * 2\<rfloor> < Suc (nat \<lfloor>1 / a\<rfloor>)"
      by linarith
    with True a show ?thesis by simp
  next
    case False
    then have "2 \<le> 1 / a"
      using pos by (simp add: field_simps)
    then have "\<lfloor>1 / a / 2\<rfloor> \<le> \<lfloor>1 / a - 1\<rfloor>"
      by (intro floor_mono) simp
    then have "\<lfloor>1 / (a * 2)\<rfloor> < \<lfloor>1 / a\<rfloor>"
      by (simp add: field_simps)
    moreover have "0 \<le> \<lfloor>1 / (a * 2)\<rfloor>"
      using pos by simp
    ultimately show ?thesis
      using False a by simp
  qed
qed

declare binade.simps [simp del]

text \<open>
  The distance between neighbouring binary64 numbers around a magnitude \<open>a\<close>: 53
  significant bits, and the fixed spacing \<open>2 ^ - 1074\<close> below the smallest normal
  number \<open>2 ^ - 1022\<close>.
\<close>

definition ulp :: "real \<Rightarrow> real" where
  "ulp a = (if a < pow2 (- 1022) then pow2 (- 1074) else pow2 (binade a - 52))"

text \<open>
  The magnitude from which rounding to nearest gives an infinity: half way between the
  largest binary64 number, \<open>2 ^ 1024 - 2 ^ 971\<close>, and \<open>2 ^ 1024\<close>.
\<close>

definition overflow_threshold :: real where
  "overflow_threshold = 2 ^ 1024 - 2 ^ 970"

text \<open>Rounding a real number to binary64.\<close>

definition fl :: "real \<Rightarrow> pyfloat" where
  "fl x =
     (if overflow_threshold \<le> \<bar>x\<bar> then (if 0 < x then PInf else NInf)
      else Fin (of_int (round_half_even (x / ulp \<bar>x\<bar>)) * ulp \<bar>x\<bar>))"

text \<open>IEEE 754 subtraction, as numpy's \<^verbatim>\<open>X -= mean_\<close> performs it elementwise.\<close>

fun psub :: "pyfloat \<Rightarrow> pyfloat \<Rightarrow> pyfloat" where
  "psub NaN b = NaN"
| "psub a NaN = NaN"
| "psub (Fin x) (Fin y) = fl (x - y)"
| "psub (Fin x) PInf = NInf"
| "psub (Fin x) NInf = PInf"
| "psub PInf PInf = NaN"
| "psub NInf NInf = NaN"
| "psub PInf b = PInf"
| "psub NInf b = NInf"

text \<open>
  IEEE 754 division, as numpy's \<^verbatim>\<open>X /= scale_\<close> performs it elementwise: a zero
  divisor raises nothing (numpy only warns) and gives an infinity, or NaN for 0/0.
\<close>

fun pdiv :: "pyfloat \<Rightarrow> pyfloat \<Rightarrow> pyfloat" where
  "pdiv NaN b = NaN"
| "pdiv a NaN = NaN"
| "pdiv (Fin x) (Fin y) =
     (if y \<noteq> 0 then fl (x / y)
      else if x = 0 then NaN else if 0 < x then PInf else NInf)"
| "pdiv (Fin x) PInf = Fin 0"
| "pdiv (Fin x) NInf = Fin 0"
| "pdiv PInf (Fin y) = (if 0 \<le> y then PInf else NInf)"
| "pdiv NInf (Fin y) = (if 0 \<le> y then NInf else PInf)"
| "pdiv PInf b = NaN"
| "pdiv NInf b = NaN"

fun pmul :: "pyfloat \<Rightarrow> pyfloat \<Rightarrow> pyfloat" where
  "pmul NaN b = NaN"
| "pmul a NaN = NaN"
| "pmul (Fin x) (Fin y) = fl (x * y)"
| "pmul (Fin x) PInf = (if x = 0 then NaN else if 0 < x then PInf else NInf)"
| "pmul (Fin x) NInf = (if x = 0 then NaN else if 0 < x then NInf else PInf)"
| "pmul PInf (Fin y) = (if y = 0 then NaN else if 0 < y then PInf else NInf)"
| "pmul NInf (Fin y) = (if y = 0 then NaN else if 0 < y then NInf else PInf)"
| "pmul PInf PInf = PInf"
| "pmul NInf NInf = PInf"
| "pmul PInf NInf = NInf"
| "pmul NInf PInf = NInf"

fun padd :: "pyfloat \<Rightarrow> pyfloat \<Rightarrow> pyfloat" where
  "padd NaN b = NaN"
| "padd a NaN = NaN"
| "padd (Fin x) (Fin y) = fl (x + y)"
| "padd PInf NInf = NaN"
| "padd NInf PInf = NaN"
| "padd PInf b = PInf"
| "padd NInf b = NInf"
| "padd (Fin x) PInf = PInf"
| "padd (Fin x) NInf = NInf"

text \<open>numpy's \<^verbatim>\<open>rint\<close>: the nearest integer, a tie to the even one.\<close>

fun rint :: "pyfloat \<Rightarrow> pyfloat" where
  "rint (Fin x) = Fin (of_int (round_half_even x))"
| "rint x = x"

subsection \<open>The request body\<close>

text \<open>
  \<^verbatim>\<open>request.get_json()\<close> returns the parsed JSON value: a \<^verbatim>\<open>dict\<close> for an
  object, an \<^verbatim>\<open>int\<close> of any size for an integer literal, and Python's \<^verbatim>\<open>json\<close>
  module also reads the literals \<^verbatim>\<open>NaN\<close> and \<^verbatim>\<open>Infinity\<close>. A body that is not
  JSON makes \<^verbatim>\<open>get_json\<close> raise.
\<close>

datatype json =
    JNull
  | JBool bool
  | JInt int
  | JFloat pyfloat
  | JStr string
  | JArr "json list"
  | JObj "string \<Rightarrow> json option"

datatype request = NotJson | Body json

datatype py_exn =
    BadRequest \<comment> \<open>raised by \<^verbatim>\<open>get_json\<close>\<close>
  | AttributeError string \<comment> \<open>\<^verbatim>\<open>'T' object has no attribute 'get'\<close>, T the type name\<close>
  | ValueError_float string \<comment> \<open>\<^verbatim>\<open>could not convert string to float: 's'\<close>\<close>
  | TypeError_float string \<comment> \<open>\<^verbatim>\<open>float() argument must be a string or a real number, not 'T'\<close>\<close>
  | OverflowError_float \<comment> \<open>\<^verbatim>\<open>int too large to convert to float\<close>\<close>
  | ValueError_not_finite \<comment> \<open>scikit-learn's \<^verbatim>\<open>check_array\<close>: the input has NaN or infinity\<close>
  | ValueError_n_features nat nat \<comment> \<open>scikit-learn: X has n features, the estimator expects m\<close>
  | ValueError_broadcast \<comment> \<open>numpy: operands could not be broadcast together\<close>
  | ValueError_matmul \<comment> \<open>numpy: the operands of \<^verbatim>\<open>@\<close> have mismatching sizes\<close>

fun type_name :: "json \<Rightarrow> string" where
  "type_name JNull = ''NoneType''"
| "type_name (JBool b) = ''bool''"
| "type_name (JInt n) = ''int''"
| "type_name (JFloat x) = ''float''"
| "type_name (JStr s) = ''str''"
| "type_name (JArr vs) = ''list''"
| "type_name (JObj d) = ''dict''"

text \<open>
  The built-in \<^verbatim>\<open>float(v)\<close>; \<open>P\<close> is its behaviour on strings. An \<^verbatim>\<open>int\<close> is
  rounded to the nearest float, and one that rounds beyond the largest float raises
  OverflowError.
\<close>

fun py_float :: "(string \<Rightarrow> pyfloat option) \<Rightarrow> json \<Rightarrow> py_exn + pyfloat" where
  "py_float P (JInt n) =
     (if is_finite (fl (of_int n)) then Inr (fl (of_int n)) else Inl OverflowError_float)"
| "py_float P (JFloat x) = Inr x"
| "py_float P (JBool b) = Inr (Fin (if b then 1 else 0))"
| "py_float P (JStr s) = (case P s of None \<Rightarrow> Inl (ValueError_float s) | Some x \<Rightarrow> Inr x)"
| "py_float P v = Inl (TypeError_float (type_name v))"

text \<open>\<^verbatim>\<open>data.get(key, default)\<close> on a dict.\<close>

definition dict_get :: "(string \<Rightarrow> json option) \<Rightarrow> string \<Rightarrow> json \<Rightarrow> json" where
  "dict_get d k dflt = (case d k of None \<Rightarrow> dflt | Some v \<Rightarrow> v)"

text \<open>The keys read at lines 62 to 69, in the order of the list display.\<close>

definition feature_names :: "string list" where
  "feature_names =
     [''MedInc'', ''HouseAge'', ''AveRooms'', ''AveBedrms'',
      ''Population'', ''AveOccup'', ''Latitude'', ''Longitude'']"

text \<open>
  The elements of a list display are evaluated left to right; the first \<^verbatim>\<open>float()\<close>
  that raises ends the evaluation.
\<close>

fun floats :: "(string \<Rightarrow> pyfloat option) \<Rightarrow> json list \<Rightarrow> py_exn + pyfloat list" where
  "floats P [] = Inr []"
| "floats P (v # vs) =
     (case py_float P v of
        Inl e \<Rightarrow> Inl e
      | Inr x \<Rightarrow> (case floats P vs of Inl e \<Rightarrow> Inl e | Inr xs \<Rightarrow> Inr (x # xs)))"

text \<open>Lines 61 to 70: every missing key reads as the integer 0.\<close>

definition extract_features ::
  "(string \<Rightarrow> pyfloat option) \<Rightarrow> json \<Rightarrow> py_exn + pyfloat list" where
  "extract_features P data =
     (case data of
        JObj d \<Rightarrow> floats P (map (\<lambda>k. dict_get d k (JInt 0)) feature_names)
      | _ \<Rightarrow> Inl (AttributeError (type_name data)))"

subsection \<open>The pickled estimators\<close>

text \<open>
  The attributes of a fitted \<^verbatim>\<open>StandardScaler()\<close> and \<^verbatim>\<open>Ridge(alpha=1.0)\<close> that
  inference reads: \<^verbatim>\<open>n_features_in_\<close>, \<^verbatim>\<open>mean_\<close> and \<^verbatim>\<open>scale_\<close> of the scaler,
  \<^verbatim>\<open>n_features_in_\<close>, \<^verbatim>\<open>coef_\<close> (one-dimensional, the target being so) and
  \<^verbatim>\<open>intercept_\<close> of the model.
\<close>

record standard_scaler =
  scaler_features_in :: nat
  mean :: "pyfloat list"
  scale :: "pyfloat list"

record ridge =
  model_features_in :: nat
  coef :: "pyfloat list"
  intercept :: pyfloat

text \<open>
  numpy's broadcasting of a one-dimensional array against a row of \<open>n\<close> entries: an
  array of length \<open>n\<close> as it is, an array of length 1 repeated, any other length an error.
\<close>

definition broadcast :: "nat \<Rightarrow> 'a list \<Rightarrow> 'a list option" where
  "broadcast n xs =
     (if length xs = n then Some xs
      else if length xs = 1 then Some (replicate n (hd xs))
      else None)"

text \<open>
  \<^verbatim>\<open>scaler.transform(features)\<close>: the input check of \<^verbatim>\<open>StandardScaler\<close> lets NaN
  pass and rejects an infinity, then the feature count is compared with the fitted one,
  then \<^verbatim>\<open>X -= mean_\<close> and \<^verbatim>\<open>X /= scale_\<close>.
\<close>

definition transform :: "standard_scaler \<Rightarrow> pyfloat list \<Rightarrow> py_exn + pyfloat list" where
  "transform sc X =
     (if list_ex is_inf X then Inl ValueError_not_finite
      else if scaler_features_in sc \<noteq> length X then
        Inl (ValueError_n_features (length X) (scaler_features_in sc))
      else
        (case broadcast (length X) (mean sc) of
           None \<Rightarrow> Inl ValueError_broadcast
         | Some M \<Rightarrow>
             (case broadcast (length X) (scale sc) of
                None \<Rightarrow> Inl ValueError_broadcast
              | Some S \<Rightarrow> Inr (map2 pdiv (map2 psub X M) S))))"

text \<open>
  The sum of a dot product. numpy hands the product to a BLAS routine, which does not fix
  the order of the additions; here they go from left to right, every sum rounded.
\<close>

definition psum :: "pyfloat list \<Rightarrow> pyfloat" where
  "psum xs = foldl padd (Fin 0) xs"

text \<open>
  \<^verbatim>\<open>model.predict(features_scaled)[0]\<close>: the input check of a linear model rejects
  NaN and infinity, the feature count is compared with the fitted one, and the result is
  \<^verbatim>\<open>X @ coef_ + intercept_\<close>. The result itself is not checked.
\<close>

definition ridge_predict :: "ridge \<Rightarrow> pyfloat list \<Rightarrow> py_exn + pyfloat" where
  "ridge_predict m Z =
     (if \<not> list_all is_finite Z then Inl ValueError_not_finite
      else if model_features_in m \<noteq> length Z then
        Inl (ValueError_n_features (length Z) (model_features_in m))
      else if length (coef m) \<noteq> length Z then Inl ValueError_matmul
      else Inr (padd (psum (map2 pmul Z (coef m))) (intercept m)))"

subsection \<open>Rounding and formatting (lines 78 to 88)\<close>

text \<open>
  \<^verbatim>\<open>round(x, ndigits)\<close> on a numpy float, which \<^verbatim>\<open>model.predict(...)[0]\<close> is:
  \<^verbatim>\<open>rint(x)\<close> for no decimals, and \<^verbatim>\<open>rint(x * 10**ndigits) / 10**ndigits\<close>
  in float arithmetic otherwise. NaN and the infinities come back unchanged.
\<close>

definition py_round :: "pyfloat \<Rightarrow> nat \<Rightarrow> pyfloat" where
  "py_round x nd =
     (if nd = 0 then rint x
      else pdiv (rint (pmul x (Fin (10 ^ nd)))) (Fin (10 ^ nd)))"

definition digit_char :: "nat \<Rightarrow> char" where
  "digit_char n = ''0123456789'' ! n"

function digits :: "nat \<Rightarrow> string" where
  "digits n = (if n < 10 then [digit_char n] else digits (n div 10) @ [digit_char (n mod 10)])"
  by pat_completeness auto
termination
  by (relation "measure (\<lambda>n. n)") auto

declare digits.simps [simp del]

text \<open>The thousands separator, on the digits in reverse order.\<close>

fun commas_rev :: "string \<Rightarrow> string" where
  "commas_rev (a # b # c # d # ds) = a # b # c # CHR '','' # commas_rev (d # ds)"
| "commas_rev ds = ds"

text \<open>
  The format specification \<^verbatim>\<open>,.0f\<close>: the exact value of the float rounded to no
  decimals (a tie to even), a comma every three digits, a minus sign for a negative
  value (also when it rounds to zero), and the words \<^verbatim>\<open>nan\<close> and \<^verbatim>\<open>inf\<close> for
  the non-finite values.
\<close>

fun format_comma_0f :: "pyfloat \<Rightarrow> string" where
  "format_comma_0f (Fin x) =
     (if x < 0 then [CHR ''-''] else []) @
     rev (commas_rev (rev (digits (nat \<bar>round_half_even x\<bar>))))"
| "format_comma_0f PInf = ''inf''"
| "format_comma_0f NInf = ''-inf''"
| "format_comma_0f NaN = ''nan''"

record prediction =
  price_100k :: pyfloat
  price_usd :: pyfloat
  price_formatted :: string

text \<open>Lines 79 to 88, with \<^verbatim>\<open>prediction\<close> the value of \<^verbatim>\<open>model.predict(...)[0]\<close>.\<close>

definition format_prediction :: "pyfloat \<Rightarrow> prediction" where
  "format_prediction p =
     (let p_100k = p; p_usd = pmul p (Fin 100000)
      in \<lparr>price_100k = py_round p_100k 2,
          price_usd = py_round p_usd 0,
          price_formatted = CHR ''$'' # format_comma_0f p_usd\<rparr>)"

subsection \<open>Loading the artifacts (lines 14 to 38)\<close>

text \<open>
  What \<^verbatim>\<open>load_model\<close> can raise: FileNotFoundError by its own test of the two paths,
  and whatever \<^verbatim>\<open>open\<close> and \<^verbatim>\<open>pickle.load\<close> raise on a file that exists.
\<close>

datatype load_error =
    FileNotFoundError
  | IsADirectoryError
  | PermissionError
  | EOFError
  | UnpicklingError
  | ModuleNotFoundError

text \<open>
  A file that exists: opening and unpickling it either raises or gives the object.
\<close>

datatype 'a pickle_file = Unloadable load_error | Pickled 'a

text \<open>The two files of the model directory; \<open>None\<close> is a path that does not exist.\<close>

record model_dir =
  model_pkl :: "ridge pickle_file option"
  scaler_pkl :: "standard_scaler pickle_file option"

definition load_model :: "model_dir \<Rightarrow> load_error + ridge \<times> standard_scaler" where
  "load_model fs =
     (case (model_pkl fs, scaler_pkl fs) of
        (Some mf, Some sf) \<Rightarrow>
          (case mf of
             Unloadable e \<Rightarrow> Inl e
           | Pickled m \<Rightarrow>
               (case sf of
                  Unloadable e \<Rightarrow> Inl e
                | Pickled s \<Rightarrow> Inr (m, s)))
      | _ \<Rightarrow> Inl FileNotFoundError)"

text \<open>The module globals \<^verbatim>\<open>model\<close> and \<^verbatim>\<open>scaler\<close>.\<close>

record app_state =
  model :: "ridge option"
  scaler :: "standard_scaler option"

text \<open>
  Lines 33 to 38 run when the module is imported. Only FileNotFoundError is caught; any
  other exception of \<^verbatim>\<open>load_model\<close> leaves the module, and the process ends before it
  serves a request.
\<close>

datatype startup_result = Aborted load_error | Running app_state

definition startup :: "model_dir \<Rightarrow> startup_result" where
  "startup fs =
     (case load_model fs of
        Inr (m, s) \<Rightarrow> Running \<lparr>model = Some m, scaler = Some s\<rparr>
      | Inl e \<Rightarrow>
          (if e = FileNotFoundError then Running \<lparr>model = None, scaler = None\<rparr>
           else Aborted e))"

subsection \<open>The handler \<^verbatim>\<open>predict\<close> (lines 47 to 95)\<close>

datatype error_body =
    Model_not_loaded \<comment> \<open>\<^verbatim>\<open>'Model not loaded. Please train the model first.'\<close>\<close>
  | Raised py_exn \<comment> \<open>\<^verbatim>\<open>str(e)\<close>\<close>

datatype response =
    Success prediction \<comment> \<open>\<^verbatim>\<open>'success': True\<close>, status 200\<close>
  | Failure nat error_body \<comment> \<open>\<^verbatim>\<open>'success': False\<close>, with the status code\<close>

text \<open>Lines 58 to 76: the value \<^verbatim>\<open>prediction\<close>, or the exception raised on the way.\<close>

definition raw_prediction ::
  "(string \<Rightarrow> pyfloat option) \<Rightarrow> ridge \<Rightarrow> standard_scaler \<Rightarrow> request \<Rightarrow> py_exn + pyfloat" where
  "raw_prediction P m s req =
     (case req of
        NotJson \<Rightarrow> Inl BadRequest
      | Body data \<Rightarrow>
          (case extract_features P data of
             Inl e \<Rightarrow> Inl e
           | Inr X \<Rightarrow>
               (case transform s X of
                  Inl e \<Rightarrow> Inl e
                | Inr Z \<Rightarrow> ridge_predict m Z)))"

definition predict :: "(string \<Rightarrow> pyfloat option) \<Rightarrow> app_state \<Rightarrow> request \<Rightarrow> response" where
  "predict P st req =
     (case (model st, scaler st) of
        (Some m, Some s) \<Rightarrow>
          (case raw_prediction P m s req of
             Inl e \<Rightarrow> Failure 400 (Raised e)
           | Inr p \<Rightarrow> Success (format_prediction p))
      | _ \<Rightarrow> Failure 500 Model_not_loaded)"

subsection \<open>The table of \<^verbatim>\<open>get_feature_ranges\<close> (lines 98 to 118)\<close>

text \<open>The numeric entries of each feature; the label and the unit are display texts.\<close>

record feature_range =
  range_min :: real
  range_max :: real
  range_default :: real
  range_step :: real

definition get_feature_ranges :: "(string \<times> feature_range) list" where
  "get_feature_ranges =
     [(''MedInc'', \<lparr>range_min = 0.5, range_max = 15, range_default = 3.5, range_step = 0.1\<rparr>),
      (''HouseAge'', \<lparr>range_min = 1, range_max = 52, range_default = 25, range_step = 1\<rparr>),
      (''AveRooms'', \<lparr>range_min = 1, range_max = 10, range_default = 5, range_step = 0.1\<rparr>),
      (''AveBedrms'', \<lparr>range_min = 0.5, range_max = 5, range_default = 1, range_step = 0.1\<rparr>),
      (''Population'', \<lparr>range_min = 100, range_max = 10000, range_default = 1500, range_step = 100\<rparr>),
      (''AveOccup'', \<lparr>range_min = 1, range_max = 10, range_default = 3, range_step = 0.1\<rparr>),
      (''Latitude'', \<lparr>range_min = 32.5, range_max = 42, range_default = 35.5, range_step = 0.1\<rparr>),
      (''Longitude'', \<lparr>range_min = -124.5, range_max = -114, range_default = -119.5, range_step = 0.1\<rparr>)]"

text \<open>
  The request that supplies, for every feature, the default the table advertises (each of
  the eight defaults is a binary64 number).
\<close>

definition advertised_defaults :: "string \<Rightarrow> json option" where
  "advertised_defaults =
     map_of (map (\<lambda>(k, r). (k, JFloat (Fin (range_default r)))) get_feature_ranges)"

subsection \<open>Inputs and artifacts the properties speak about\<close>

text \<open>
  The artifacts of the concrete scenario of the specification (section 8): mean 0 and
  scale 1 for the eight features, weight 1 for the first feature and 0 for the others,
  intercept 0.
\<close>

definition scenario_scaler :: standard_scaler where
  "scenario_scaler =
     \<lparr>scaler_features_in = 8, mean = replicate 8 (Fin 0), scale = replicate 8 (Fin 1)\<rparr>"

definition scenario_model :: ridge where
  "scenario_model =
     \<lparr>model_features_in = 8,
      coef = [Fin 1, Fin 0, Fin 0, Fin 0, Fin 0, Fin 0, Fin 0, Fin 0], intercept = Fin 0\<rparr>"

definition scenario_state :: app_state where
  "scenario_state = \<lparr>model = Some scenario_model, scaler = Some scenario_scaler\<rparr>"




text \<open>
  For the closed examples, a fragment of \<^verbatim>\<open>float()\<close> on strings: Python reads
  \<^verbatim>\<open>'3.5'\<close> as 3.5 and \<^verbatim>\<open>'nan'\<close> as NaN and raises ValueError on \<^verbatim>\<open>'abc'\<close>;
  the examples pass it no other string.
\<close>

definition float_of_str_fragment :: "string \<Rightarrow> pyfloat option" where
  "float_of_str_fragment s =
     (if s = ''3.5'' then Some (Fin 3.5) else if s = ''nan'' then Some NaN else None)"

section \<open>Properties\<close>

subsection \<open>Rounding at the numbers of the examples\<close>

lemmas fl_eval = fl_def overflow_threshold_def ulp_def pow2_def round_half_even_def binade.simps

lemma fl_0: "fl 0 = Fin 0"
  by (simp add: fl_eval)

lemma fl_1: "fl 1 = Fin 1"
  by (simp add: fl_eval)

lemma fl_2: "fl 2 = Fin 2"
  by (simp add: fl_eval)

lemma fl_7_2: "fl (7 / 2) = Fin (7 / 2)"
  by (simp add: fl_eval)

lemma fl_200: "fl 200 = Fin 200"
  by (simp add: fl_eval)

lemma fl_350: "fl 350 = Fin 350"
  by (simp add: fl_eval)

lemma fl_200000: "fl 200000 = Fin 200000"
  by (simp add: fl_eval)

lemma fl_350000: "fl 350000 = Fin 350000"
  by (simp add: fl_eval)

lemma fl_defaults:
  "fl 25 = Fin 25" "fl 5 = Fin 5" "fl 1500 = Fin 1500" "fl 3 = Fin 3"
  "fl (71 / 2) = Fin (71 / 2)" "fl (- (239 / 2)) = Fin (- (239 / 2))"
  by (simp_all add: fl_eval)

lemma fl_overflow: "fl (2 ^ 1024) = PInf"
  by (simp add: fl_def overflow_threshold_def)

subsection \<open>Feature extraction\<close>

lemma py_float_zero: "py_float P (JInt 0) = Inr (Fin 0)"
  by (simp add: fl_0)

lemma extract_features_empty:
  "extract_features P (JObj Map.empty) = Inr (replicate 8 (Fin 0))"
  by (simp add: extract_features_def feature_names_def dict_get_def numeral_eq_Suc fl_0)





lemma floats_length: "floats P vs = Inr xs \<Longrightarrow> length xs = length vs"
  by (induction vs arbitrary: xs) (auto split: sum.splits)

lemma feature_names_length: "length feature_names = 8"
  by (simp add: feature_names_def)

lemma extract_features_length:
  assumes "extract_features P data = Inr X"
  shows "length X = 8"
proof (cases data)
  case (JObj d)
  with assms have "floats P (map (\<lambda>k. dict_get d k (JInt 0)) feature_names) = Inr X"
    by (simp add: extract_features_def)
  from floats_length [OF this] show ?thesis
    by (simp add: feature_names_length)
qed (use assms in \<open>simp_all add: extract_features_def\<close>)

subsection \<open>The concrete scenario\<close>

lemma scenario_raw:
  "raw_prediction P scenario_model scenario_scaler
     (Body (JObj (Map.empty(''MedInc'' \<mapsto> JFloat (Fin 3.5))))) = Inr (Fin 3.5)"
  by (simp add: raw_prediction_def extract_features_def feature_names_def dict_get_def
      transform_def broadcast_def ridge_predict_def psum_def scenario_model_def
      scenario_scaler_def numeral_eq_Suc fl_0 fl_7_2)

lemma format_scenario:
  "format_prediction (Fin 3.5) =
     \<lparr>price_100k = Fin 3.5, price_usd = Fin 350000, price_formatted = ''$350,000''\<rparr>"
  by (simp add: format_prediction_def py_round_def fl_350 fl_350000 fl_7_2 round_half_even_def
      digits.simps digit_char_def)

lemma format_zero:
  "format_prediction (Fin 0) =
     \<lparr>price_100k = Fin 0, price_usd = Fin 0, price_formatted = ''$0''\<rparr>"
  by (simp add: format_prediction_def py_round_def fl_0 round_half_even_def
      digits.simps digit_char_def)

lemma scenario_empty_raw:
  "raw_prediction P scenario_model scenario_scaler (Body (JObj Map.empty)) = Inr (Fin 0)"
  by (simp add: raw_prediction_def extract_features_empty transform_def broadcast_def
      ridge_predict_def psum_def scenario_model_def scenario_scaler_def numeral_eq_Suc fl_0)

lemma scenario_empty:
  "predict P scenario_state (Body (JObj Map.empty)) =
     Success \<lparr>price_100k = Fin 0, price_usd = Fin 0, price_formatted = ''$0''\<rparr>"
  by (simp add: predict_def scenario_state_def scenario_empty_raw format_zero)

text \<open>
  Claim C1. With the artifacts of the scenario (mean 0, scale 1, weights 1,0,...,0,
  intercept 0) the request \<^verbatim>\<open>{"MedInc": 3.5}\<close> has the raw prediction 3.5, and the
  handler answers with \<^verbatim>\<open>price_100k\<close> 3.5, \<^verbatim>\<open>price_usd\<close> 350000 and the display
  string \<^verbatim>\<open>$350,000\<close>.
\<close>

theorem predict_scenario:
  "raw_prediction P scenario_model scenario_scaler
     (Body (JObj (Map.empty(''MedInc'' \<mapsto> JFloat (Fin 3.5))))) = Inr (Fin 3.5) \<and>
   predict P scenario_state (Body (JObj (Map.empty(''MedInc'' \<mapsto> JFloat (Fin 3.5))))) =
     Success \<lparr>price_100k = Fin 3.5, price_usd = Fin 350000, price_formatted = ''$350,000''\<rparr>"
  using scenario_raw [of P] format_scenario
  by (simp add: predict_def scenario_state_def)

subsection \<open>Loading\<close>

text \<open>
  Claim C6. When exactly one of \<^verbatim>\<open>model.pkl\<close> and \<^verbatim>\<open>scaler.pkl\<close> exists,
  \<^verbatim>\<open>load_model\<close> raises FileNotFoundError, whatever the file that exists holds.
\<close>

theorem load_one_file_missing:
  "(model_pkl fs = None) \<noteq> (scaler_pkl fs = None) \<Longrightarrow> load_model fs = Inl FileNotFoundError"
  by (auto simp: load_model_def split: option.splits)

theorem load_one_file_missing_witness:
  "load_model \<lparr>model_pkl = Some (Pickled scenario_model), scaler_pkl = None\<rparr> =
     Inl FileNotFoundError \<and>
   load_model \<lparr>model_pkl = None, scaler_pkl = Some (Pickled scenario_scaler)\<rparr> =
     Inl FileNotFoundError"
  using load_one_file_missing
      [of "\<lparr>model_pkl = Some (Pickled scenario_model), scaler_pkl = None\<rparr>"]
    load_one_file_missing
      [of "\<lparr>model_pkl = None, scaler_pkl = Some (Pickled scenario_scaler)\<rparr>"]
  by simp




subsection \<open>Artifacts that are not validated\<close>

lemma pdiv_zero_not_finite: "\<not> is_finite (pdiv a (Fin 0))"
  by (cases a) simp_all

lemma zero_scale_not_finite:
  "length ys = length sc \<Longrightarrow> list_ex (\<lambda>x. x = Fin 0) sc \<Longrightarrow>
     \<not> list_all is_finite (map2 pdiv ys sc)"
  by (induction rule: list_induct2) (auto simp: pdiv_zero_not_finite)

lemma broadcast_length: "broadcast n xs = Some ys \<Longrightarrow> length ys = n"
  by (auto simp: broadcast_def split: if_splits)

lemma broadcast_zero:
  assumes "broadcast n xs = Some ys" "list_ex (\<lambda>x. x = Fin 0) xs" "0 < n"
  shows "list_ex (\<lambda>x. x = Fin 0) ys"
proof (cases "length xs = n")
  case True
  with assms show ?thesis by (simp add: broadcast_def)
next
  case False
  with assms(1) have one: "length xs = 1" and ys: "ys = replicate n (hd xs)"
    by (auto simp: broadcast_def split: if_splits)
  from one obtain x where "xs = [x]"
    by (cases xs) simp_all
  with assms(2) have "hd xs = Fin 0" by simp
  with ys assms(3) show ?thesis
    by (auto simp: list_ex_iff)
qed

lemma transform_zero_scale:
  assumes "list_ex (\<lambda>x. x = Fin 0) (scale s)" "transform s X = Inr Z" "0 < length X"
  shows "\<not> list_all is_finite Z"
proof -
  from assms(2) obtain M S where M: "broadcast (length X) (mean s) = Some M"
    and S: "broadcast (length X) (scale s) = Some S"
    and Z: "Z = map2 pdiv (map2 psub X M) S"
    by (auto simp: transform_def split: if_splits option.splits)
  have "length (map2 psub X M) = length S"
    using broadcast_length [OF M] broadcast_length [OF S] by simp
  moreover have "list_ex (\<lambda>x. x = Fin 0) S"
    using S assms(1,3) by (rule broadcast_zero)
  ultimately show ?thesis
    unfolding Z by (rule zero_scale_not_finite)
qed

lemma raw_prediction_zero_scale:
  assumes "list_ex (\<lambda>x. x = Fin 0) (scale s)"
  shows "\<exists>e. raw_prediction P m s req = Inl e"
proof (cases "raw_prediction P m s req")
  case (Inl e)
  then show ?thesis by simp
next
  case (Inr p)
  then obtain data X Z where X: "extract_features P data = Inr X"
    and Z: "transform s X = Inr Z" and p: "ridge_predict m Z = Inr p"
    by (auto simp: raw_prediction_def split: request.splits sum.splits)
  from extract_features_length [OF X] have "0 < length X" by simp
  from transform_zero_scale [OF assms Z this] p show ?thesis
    by (auto simp: ridge_predict_def)
qed

text \<open>
  Claim C3 as stated fails: a scaler whose scale entries are all 0, and one whose scale
  entries are all -1, are loaded.
\<close>

theorem load_accepts_zero_scale:
  "load_model \<lparr>model_pkl = Some (Pickled scenario_model),
      scaler_pkl = Some (Pickled
        \<lparr>scaler_features_in = 8, mean = replicate 8 (Fin 0), scale = replicate 8 (Fin 0)\<rparr>)\<rparr> =
     Inr (scenario_model,
       \<lparr>scaler_features_in = 8, mean = replicate 8 (Fin 0), scale = replicate 8 (Fin 0)\<rparr>) \<and>
   load_model \<lparr>model_pkl = Some (Pickled scenario_model),
      scaler_pkl = Some (Pickled
        \<lparr>scaler_features_in = 8, mean = replicate 8 (Fin 0), scale = replicate 8 (Fin (- 1))\<rparr>)\<rparr> =
     Inr (scenario_model,
       \<lparr>scaler_features_in = 8, mean = replicate 8 (Fin 0), scale = replicate 8 (Fin (- 1))\<rparr>)"
  by (simp add: load_model_def)

text \<open>
  Claim C3, as amended. \<^verbatim>\<open>load_model\<close> inspects neither artifact: when both files
  exist and unpickle it returns the objects as they are, whatever the scale entries, and
  start-up stores them in the globals. A zero scale entry therefore reaches prediction
  time. The division by it raises nothing; the standardized vector has a non-finite
  entry, the input check of the model's \<^verbatim>\<open>predict\<close> rejects it, and every request is
  answered with a failure of status 400.
\<close>

theorem load_keeps_any_scale:
  "model_pkl fs = Some (Pickled m) \<Longrightarrow> scaler_pkl fs = Some (Pickled s) \<Longrightarrow>
     load_model fs = Inr (m, s) \<and>
     startup fs = Running \<lparr>model = Some m, scaler = Some s\<rparr> \<and>
     (list_ex (\<lambda>x. x = Fin 0) (scale s) \<longrightarrow>
        (\<exists>e. predict P \<lparr>model = Some m, scaler = Some s\<rparr> req = Failure 400 (Raised e)))"
  using raw_prediction_zero_scale [of s P m req]
  by (auto simp: load_model_def startup_def predict_def)

theorem load_keeps_any_scale_witness:
  "load_model \<lparr>model_pkl = Some (Pickled scenario_model),
      scaler_pkl = Some (Pickled
        \<lparr>scaler_features_in = 8, mean = replicate 8 (Fin 0), scale = replicate 8 (Fin 0)\<rparr>)\<rparr> =
     Inr (scenario_model,
       \<lparr>scaler_features_in = 8, mean = replicate 8 (Fin 0), scale = replicate 8 (Fin 0)\<rparr>) \<and>
   list_ex (\<lambda>x. x = Fin 0) (replicate 8 (Fin 0)) \<and>
   (\<exists>e. predict float_of_str_fragment
      \<lparr>model = Some scenario_model,
       scaler = Some
         \<lparr>scaler_features_in = 8, mean = replicate 8 (Fin 0), scale = replicate 8 (Fin 0)\<rparr>\<rparr>
      (Body (JObj (Map.empty(''MedInc'' \<mapsto> JFloat (Fin 3.5))))) = Failure 400 (Raised e)) \<and>
   predict float_of_str_fragment
      \<lparr>model = Some scenario_model,
       scaler = Some
         \<lparr>scaler_features_in = 8, mean = replicate 8 (Fin 0), scale = replicate 8 (Fin 0)\<rparr>\<rparr>
      (Body (JObj (Map.empty(''MedInc'' \<mapsto> JFloat (Fin 3.5))))) =
     Failure 400 (Raised ValueError_not_finite)"
proof -
  let ?s = "\<lparr>scaler_features_in = 8, mean = replicate 8 (Fin 0), scale = replicate 8 (Fin 0)\<rparr>"
  let ?fs = "\<lparr>model_pkl = Some (Pickled scenario_model), scaler_pkl = Some (Pickled ?s)\<rparr>"
  let ?req = "Body (JObj (Map.empty(''MedInc'' \<mapsto> JFloat (Fin 3.5))))"
  have z: "list_ex (\<lambda>x. x = Fin 0) (replicate 8 (Fin 0))"
    by (simp add: numeral_eq_Suc)
  have "load_model ?fs = Inr (scenario_model, ?s) \<and>
      startup ?fs = Running \<lparr>model = Some scenario_model, scaler = Some ?s\<rparr> \<and>
      (list_ex (\<lambda>x. x = Fin 0) (scale ?s) \<longrightarrow>
        (\<exists>e. predict float_of_str_fragment \<lparr>model = Some scenario_model, scaler = Some ?s\<rparr> ?req =
           Failure 400 (Raised e)))"
    by (rule load_keeps_any_scale) simp_all
  moreover have "predict float_of_str_fragment \<lparr>model = Some scenario_model, scaler = Some ?s\<rparr> ?req =
      Failure 400 (Raised ValueError_not_finite)"
    by (simp add: predict_def raw_prediction_def extract_features_def feature_names_def
        dict_get_def transform_def broadcast_def ridge_predict_def numeral_eq_Suc fl_0 fl_7_2)
  ultimately show ?thesis
    using z by simp
qed

subsection \<open>Formatting\<close>

lemma format_nonfinite:
  "format_prediction NaN = \<lparr>price_100k = NaN, price_usd = NaN, price_formatted = ''$nan''\<rparr>"
  "format_prediction PInf = \<lparr>price_100k = PInf, price_usd = PInf, price_formatted = ''$inf''\<rparr>"
  "format_prediction NInf = \<lparr>price_100k = NInf, price_usd = NInf, price_formatted = ''$-inf''\<rparr>"
  by (simp_all add: format_prediction_def py_round_def)

lemma nan_intercept_raw:
  "raw_prediction P (scenario_model\<lparr>intercept := NaN\<rparr>) scenario_scaler (Body (JObj Map.empty)) = Inr NaN"
  by (simp add: raw_prediction_def extract_features_empty transform_def broadcast_def
      ridge_predict_def psum_def scenario_model_def scenario_scaler_def numeral_eq_Suc fl_0)

text \<open>
  Claim C9 as stated fails: with an intercept that is NaN the raw prediction is NaN and
  the handler answers with success and the display string \<^verbatim>\<open>$nan\<close>.
\<close>

theorem nonfinite_prediction_is_formatted:
  "raw_prediction float_of_str_fragment (scenario_model\<lparr>intercept := NaN\<rparr>) scenario_scaler
     (Body (JObj Map.empty)) = Inr NaN \<and>
   predict float_of_str_fragment
     \<lparr>model = Some (scenario_model\<lparr>intercept := NaN\<rparr>), scaler = Some scenario_scaler\<rparr>
     (Body (JObj Map.empty)) =
     Success \<lparr>price_100k = NaN, price_usd = NaN, price_formatted = ''$nan''\<rparr>"
  by (simp add: predict_def nan_intercept_raw format_nonfinite)

text \<open>
  Claim C9, as amended. Lines 78 to 89 have no failure mode: whatever the raw
  prediction, finite or not, the handler answers with success and the formatted result.
  For NaN and the infinities both numeric fields are that value and the display strings are
  \<^verbatim>\<open>$nan\<close>, \<^verbatim>\<open>$inf\<close> and \<^verbatim>\<open>$-inf\<close>.
\<close>

theorem format_has_no_failure:
  "(raw_prediction P m s req = Inr p \<longrightarrow>
      predict P \<lparr>model = Some m, scaler = Some s\<rparr> req = Success (format_prediction p)) \<and>
   format_prediction NaN = \<lparr>price_100k = NaN, price_usd = NaN, price_formatted = ''$nan''\<rparr> \<and>
   format_prediction PInf = \<lparr>price_100k = PInf, price_usd = PInf, price_formatted = ''$inf''\<rparr> \<and>
   format_prediction NInf = \<lparr>price_100k = NInf, price_usd = NInf, price_formatted = ''$-inf''\<rparr>"
  by (simp add: predict_def format_nonfinite)

theorem format_has_no_failure_witness:
  "raw_prediction float_of_str_fragment scenario_model scenario_scaler
     (Body (JObj (Map.empty(''MedInc'' \<mapsto> JFloat (Fin 3.5))))) = Inr (Fin 3.5) \<and>
   predict float_of_str_fragment \<lparr>model = Some scenario_model, scaler = Some scenario_scaler\<rparr>
     (Body (JObj (Map.empty(''MedInc'' \<mapsto> JFloat (Fin 3.5))))) =
     Success (format_prediction (Fin 3.5))"
  using scenario_raw [of float_of_str_fragment]
    format_has_no_failure [of float_of_str_fragment scenario_model scenario_scaler
      "Body (JObj (Map.empty(''MedInc'' \<mapsto> JFloat (Fin 3.5))))" "Fin 3.5"]
  by blast

subsection \<open>Missing keys\<close>






subsection \<open>Values that are not numbers\<close>

lemma floats_Inl_first:
  "floats P vs = Inl e \<Longrightarrow>
     \<exists>i<length vs. py_float P (vs ! i) = Inl e \<and> (\<forall>j<i. \<exists>x. py_float P (vs ! j) = Inr x)"
proof (induction vs)
  case Nil
  then show ?case by simp
next
  case (Cons v vs)
  show ?case
  proof (cases "py_float P v")
    case (Inl e')
    with Cons.prems have "e' = e" by simp
    with Inl have "py_float P ((v # vs) ! 0) = Inl e" by simp
    then show ?thesis by fastforce
  next
    case (Inr x)
    with Cons.prems have "floats P vs = Inl e"
      by (simp split: sum.splits)
    from Cons.IH [OF this] obtain i where i: "i < length vs" "py_float P (vs ! i) = Inl e"
      "\<forall>j<i. \<exists>x. py_float P (vs ! j) = Inr x" by blast
    have "\<forall>j<Suc i. \<exists>x. py_float P ((v # vs) ! j) = Inr x"
    proof (intro allI impI)
      fix j assume "j < Suc i"
      then show "\<exists>x. py_float P ((v # vs) ! j) = Inr x"
        using Inr i(3) by (cases j) simp_all
    qed
    with i(1,2) have "Suc i < length (v # vs) \<and> py_float P ((v # vs) ! Suc i) = Inl e \<and>
        (\<forall>j<Suc i. \<exists>x. py_float P ((v # vs) ! j) = Inr x)" by simp
    then show ?thesis by blast
  qed
qed

lemma floats_fails:
  "v \<in> set vs \<Longrightarrow> py_float P v = Inl e0 \<Longrightarrow> \<exists>e. floats P vs = Inl e"
  by (induction vs) (auto split: sum.splits)

text \<open>
  Claim C4 as stated fails: the text \<^verbatim>\<open>abc\<close> for MedInc and the same text for
  HouseAge get the same response, which therefore names neither feature.
\<close>

theorem failure_does_not_name_feature:
  "predict float_of_str_fragment scenario_state
     (Body (JObj (Map.empty(''MedInc'' \<mapsto> JStr ''abc'')))) =
     Failure 400 (Raised (ValueError_float ''abc'')) \<and>
   predict float_of_str_fragment scenario_state
     (Body (JObj (Map.empty(''HouseAge'' \<mapsto> JStr ''abc'')))) =
     Failure 400 (Raised (ValueError_float ''abc''))"
  by (simp add: predict_def scenario_state_def raw_prediction_def extract_features_def
      feature_names_def dict_get_def float_of_str_fragment_def fl_0)

text \<open>
  Claim C4, as amended. With the model loaded, a request in which some feature is present
  with a value that \<^verbatim>\<open>float()\<close> rejects (a text that is no number, \<^verbatim>\<open>null\<close>, a list,
  an object, an integer too large for a float) is answered with the generic failure of
  status 400 whose text is the message of the exception \<^verbatim>\<open>float()\<close> raised for the
  first such feature in the order of the schema. The exception is determined by the
  value: it carries the rejected string or the name of the rejected type, and no feature
  name. Nothing is raised out of the handler.
\<close>

theorem unconvertible_value_fails_generically:
  assumes "k \<in> set feature_names" "d k = Some v" "py_float P v = Inl e0"
    "model st = Some m" "scaler st = Some s"
  shows "\<exists>i<length feature_names. \<exists>v' e.
     d (feature_names ! i) = Some v' \<and> py_float P v' = Inl e \<and>
     (\<forall>j<i. \<exists>x. py_float P (dict_get d (feature_names ! j) (JInt 0)) = Inr x) \<and>
     predict P st (Body (JObj d)) = Failure 400 (Raised e)"
proof -
  let ?vs = "map (\<lambda>k. dict_get d k (JInt 0)) feature_names"
  have "dict_get d k (JInt 0) = v"
    using assms(2) by (simp add: dict_get_def)
  then have "v \<in> set ?vs"
    using assms(1) by force
  from floats_fails [OF this assms(3)] obtain e where e: "floats P ?vs = Inl e"
    by blast
  from floats_Inl_first [OF e] obtain i where i: "i < length feature_names"
    "py_float P (dict_get d (feature_names ! i) (JInt 0)) = Inl e"
    "\<forall>j<i. \<exists>x. py_float P (dict_get d (feature_names ! j) (JInt 0)) = Inr x"
    by auto
  have "\<exists>v'. d (feature_names ! i) = Some v' \<and> py_float P v' = Inl e"
    using i(2) by (cases "d (feature_names ! i)") (simp_all add: dict_get_def fl_0)
  moreover have "predict P st (Body (JObj d)) = Failure 400 (Raised e)"
    using e assms(4,5) by (simp add: predict_def raw_prediction_def extract_features_def)
  ultimately show ?thesis
    using i(1,3) by blast
qed

lemma huge_int_overflows: "py_float P (JInt (10 ^ 400)) = Inl OverflowError_float"
  by (simp add: fl_def overflow_threshold_def)

theorem unconvertible_value_fails_generically_witness:
  "''HouseAge'' \<in> set feature_names \<and>
   py_float float_of_str_fragment (JStr ''abc'') = Inl (ValueError_float ''abc'') \<and>
   (\<exists>e. predict float_of_str_fragment scenario_state
     (Body (JObj (Map.empty(''MedInc'' \<mapsto> JInt (10 ^ 400), ''HouseAge'' \<mapsto> JStr ''abc'')))) =
       Failure 400 (Raised e)) \<and>
   predict float_of_str_fragment scenario_state
     (Body (JObj (Map.empty(''MedInc'' \<mapsto> JInt (10 ^ 400), ''HouseAge'' \<mapsto> JStr ''abc'')))) =
     Failure 400 (Raised OverflowError_float)"
proof -
  let ?d = "Map.empty(''MedInc'' \<mapsto> JInt (10 ^ 400), ''HouseAge'' \<mapsto> JStr ''abc'')"
  have k: "''HouseAge'' \<in> set feature_names"
    by (simp add: feature_names_def)
  have v: "?d ''HouseAge'' = Some (JStr ''abc'')"
    by simp
  have f: "py_float float_of_str_fragment (JStr ''abc'') = Inl (ValueError_float ''abc'')"
    by (simp add: float_of_str_fragment_def)
  have m: "model scenario_state = Some scenario_model"
    and s: "scaler scenario_state = Some scenario_scaler"
    by (simp_all add: scenario_state_def)
  from unconvertible_value_fails_generically
    [where d = ?d and k = "''HouseAge''", OF k v f m s]
  have ex: "\<exists>e. predict float_of_str_fragment scenario_state (Body (JObj ?d)) =
      Failure 400 (Raised e)"
    by blast
  have "extract_features float_of_str_fragment (JObj ?d) = Inl OverflowError_float"
    using huge_int_overflows [of float_of_str_fragment]
    by (simp add: extract_features_def feature_names_def dict_get_def del: py_float.simps)
  then have "predict float_of_str_fragment scenario_state (Body (JObj ?d)) =
      Failure 400 (Raised OverflowError_float)"
    by (simp add: predict_def scenario_state_def raw_prediction_def)
  with k f ex show ?thesis by blast
qed

subsection \<open>Standardization\<close>








subsection \<open>The defaults of the table and the defaults of the handler\<close>

lemma table_names: "map fst get_feature_ranges = feature_names"
  by (simp add: get_feature_ranges_def feature_names_def)

lemma table_defaults_nonzero: "list_all (\<lambda>(k, r). range_default r \<noteq> 0) get_feature_ranges"
  by (simp add: get_feature_ranges_def)

lemma extract_features_advertised:
  "extract_features P (JObj advertised_defaults) =
     Inr (map Fin [3.5, 25, 5, 1, 1500, 3, 35.5, - 119.5])"
  by (simp add: extract_features_def feature_names_def dict_get_def advertised_defaults_def
      get_feature_ranges_def)

lemma scenario_advertised_raw:
  "raw_prediction P scenario_model scenario_scaler (Body (JObj advertised_defaults)) =
     Inr (Fin 3.5)"
  by (simp add: raw_prediction_def extract_features_advertised transform_def broadcast_def
      ridge_predict_def psum_def scenario_model_def scenario_scaler_def numeral_eq_Suc
      fl_0 fl_7_2 fl_1 fl_defaults)

lemma scenario_advertised:
  "predict P scenario_state (Body (JObj advertised_defaults)) =
     Success \<lparr>price_100k = Fin 3.5, price_usd = Fin 350000, price_formatted = ''$350,000''\<rparr>"
  using scenario_advertised_raw [of P] format_scenario
  by (simp add: predict_def scenario_state_def)

lemma zero_weights_raw:
  "raw_prediction P \<lparr>model_features_in = 8, coef = replicate 8 (Fin 0), intercept = Fin 2\<rparr>
     scenario_scaler (Body (JObj Map.empty)) = Inr (Fin 2)"
  "raw_prediction P \<lparr>model_features_in = 8, coef = replicate 8 (Fin 0), intercept = Fin 2\<rparr>
     scenario_scaler (Body (JObj advertised_defaults)) = Inr (Fin 2)"
  by (simp_all add: raw_prediction_def extract_features_empty extract_features_advertised
      transform_def broadcast_def ridge_predict_def psum_def scenario_scaler_def numeral_eq_Suc
      fl_0 fl_2 fl_7_2 fl_1 fl_defaults)

lemma format_two:
  "format_prediction (Fin 2) =
     \<lparr>price_100k = Fin 2, price_usd = Fin 200000, price_formatted = ''$200,000''\<rparr>"
  by (simp add: format_prediction_def py_round_def fl_2 fl_200 fl_200000 round_half_even_def
      digits.simps digit_char_def)

text \<open>
  Claim C10 as stated fails: for a model whose weights are all 0 the empty request and the
  request with the advertised defaults get the same response.
\<close>

theorem zero_weights_same_result:
  "predict float_of_str_fragment
     \<lparr>model = Some \<lparr>model_features_in = 8, coef = replicate 8 (Fin 0), intercept = Fin 2\<rparr>,
      scaler = Some scenario_scaler\<rparr> (Body (JObj Map.empty)) =
     Success \<lparr>price_100k = Fin 2, price_usd = Fin 200000, price_formatted = ''$200,000''\<rparr> \<and>
   predict float_of_str_fragment
     \<lparr>model = Some \<lparr>model_features_in = 8, coef = replicate 8 (Fin 0), intercept = Fin 2\<rparr>,
      scaler = Some scenario_scaler\<rparr> (Body (JObj advertised_defaults)) =
     Success \<lparr>price_100k = Fin 2, price_usd = Fin 200000, price_formatted = ''$200,000''\<rparr>"
  by (simp add: predict_def zero_weights_raw format_two)

text \<open>
  Claim C10, as amended. The prediction path reads every missing key as 0, while every
  default of the table of \<^verbatim>\<open>get_feature_ranges\<close> is different from 0 (3.5 for MedInc,
  25 for HouseAge, and so on); so the feature vector of the empty request and the one of
  the advertised defaults differ in every entry. Whether the two responses differ is
  decided by the artifacts: with those of the scenario they do, \<^verbatim>\<open>$0\<close> against
  \<^verbatim>\<open>$350,000\<close>.
\<close>

theorem advertised_defaults_are_not_the_defaults:
  "(d k = None \<longrightarrow> dict_get d k (JInt 0) = JInt 0 \<and> py_float P (JInt 0) = Inr (Fin 0)) \<and>
   extract_features P (JObj Map.empty) = Inr (replicate 8 (Fin 0)) \<and>
   map fst get_feature_ranges = feature_names \<and>
   list_all (\<lambda>(k, r). range_default r \<noteq> 0) get_feature_ranges \<and>
   extract_features P (JObj advertised_defaults) =
     Inr (map Fin [3.5, 25, 5, 1, 1500, 3, 35.5, - 119.5]) \<and>
   list_all2 (\<lambda>a b. a \<noteq> b) (replicate 8 (Fin 0))
     (map Fin [3.5, 25, 5, 1, 1500, 3, 35.5, - 119.5]) \<and>
   predict P scenario_state (Body (JObj Map.empty)) \<noteq>
     predict P scenario_state (Body (JObj advertised_defaults))"
proof (intro conjI impI)
  show "dict_get d k (JInt 0) = JInt 0" if "d k = None"
    using that by (simp add: dict_get_def)
  show "py_float P (JInt 0) = Inr (Fin 0)"
    by (rule py_float_zero)
  show "extract_features P (JObj Map.empty) = Inr (replicate 8 (Fin 0))"
    by (rule extract_features_empty)
  show "map fst get_feature_ranges = feature_names"
    by (rule table_names)
  show "list_all (\<lambda>(k, r). range_default r \<noteq> 0) get_feature_ranges"
    by (rule table_defaults_nonzero)
  show "extract_features P (JObj advertised_defaults) =
      Inr (map Fin [3.5, 25, 5, 1, 1500, 3, 35.5, - 119.5])"
    by (rule extract_features_advertised)
  show "list_all2 (\<lambda>a b. a \<noteq> b) (replicate 8 (Fin 0))
      (map Fin [3.5, 25, 5, 1, 1500, 3, 35.5, - 119.5])"
    by (simp add: numeral_eq_Suc)
  show "predict P scenario_state (Body (JObj Map.empty)) \<noteq>
      predict P scenario_state (Body (JObj advertised_defaults))"
    by (simp add: scenario_empty scenario_advertised)
qed

theorem advertised_defaults_are_not_the_defaults_witness:
  "dict_get (Map.empty(''MedInc'' \<mapsto> JFloat (Fin 3.5))) ''HouseAge'' (JInt 0) = JInt 0 \<and>
   py_float float_of_str_fragment (JInt 0) = Inr (Fin 0) \<and>
   predict float_of_str_fragment scenario_state (Body (JObj Map.empty)) \<noteq>
     predict float_of_str_fragment scenario_state (Body (JObj advertised_defaults))"
proof -
  have d: "(Map.empty(''MedInc'' \<mapsto> JFloat (Fin 3.5))) ''HouseAge'' = None"
    by simp
  show ?thesis
    using advertised_defaults_are_not_the_defaults [of
        "Map.empty(''MedInc'' \<mapsto> JFloat (Fin 3.5))" "''HouseAge''" float_of_str_fragment] d
    by blast
qed

end
